theory Spec2Isabelle
  imports Main "HOL-Library.Word"
begin

unbundle bit_operations_syntax

section \<open>The LED blink sample of the ESP8266 IoT SDK template\<close>

text \<open>
  The sample \<^verbatim>\<open>LEDBlink.cpp\<close> consists of two file-scope variables
  (\<^verbatim>\<open>s_Timer\<close> and \<^verbatim>\<open>s_Tick\<close>), the timer callback
  \<^verbatim>\<open>TimerFunction\<close> and the entry point \<^verbatim>\<open>user_init\<close>.
  Both functions act on memory-mapped registers and on the timer handle through routines
  of the vendor SDK. The embedding threads one explicit state through every call; the
  state holds the registers the program touches, the two variables, and the sequence of
  SDK calls made so far, so that the order of the calls can be stated.
\<close>

subsection \<open>Data\<close>

type_synonym uint32 = "32 word"

text \<open>\<^verbatim>\<open>BIT1\<close> is the mask of bit 1; \<^verbatim>\<open>NULL\<close> is the null pointer.\<close>

definition BIT1 :: uint32 where
  "BIT1 = 2"

definition NULL :: uint32 where
  "NULL = 0"

text \<open>The two levels of the spec's state machine.\<close>

datatype pin_state = PIN_LOW | PIN_HIGH

fun pin_not :: "pin_state \<Rightarrow> pin_state" where
  "pin_not PIN_LOW = PIN_HIGH"
| "pin_not PIN_HIGH = PIN_LOW"

text \<open>
  Pads of the pin function multiplexer and the functions a pad can be routed to. The
  program names one pad and one function; the remaining ones are kept apart by a number.
\<close>

datatype io_mux_pad = PERIPHS_IO_MUX_U0TXD_U | PERIPHS_IO_MUX_OTHER nat

datatype pad_func = FUNC_U0TXD | FUNC_GPIO1 | FUNC_OTHER nat

text \<open>Addresses of the functions this file defines, as values of a function pointer.\<close>

datatype code_addr = Addr_TimerFunction | Addr_user_init

text \<open>
  The hardware registers the program reads or writes: the GPIO output register
  (\<^verbatim>\<open>GPIO_OUT_ADDRESS\<close>), the GPIO output-enable register, and the pin function
  multiplexer.
\<close>

record hw_regs =
  gpio_out :: uint32
  gpio_enable :: uint32
  io_mux :: "io_mux_pad \<Rightarrow> pad_func"

text \<open>
  Modelled from the spec: the SDK type \<^verbatim>\<open>os_timer_t\<close> is declared in the platform
  headers, which are not part of the sources. The spec describes the timer subsystem as a
  registration function taking a callback and an opaque argument, and an arm function
  taking a period in milliseconds and a repeat flag; the handle records exactly these.
\<close>

record os_timer_t =
  timer_func :: "code_addr option"
  timer_arg :: uint32
  timer_period :: uint32
  timer_repeat :: bool
  timer_armed :: bool

text \<open>One entry per call into the SDK, with the arguments of the call.\<close>

datatype sdk_call =
    Call_gpio_init
  | Call_PIN_FUNC_SELECT io_mux_pad pad_func
  | Call_gpio_output_set uint32 uint32 uint32 uint32
  | Call_os_timer_setfn code_addr uint32
  | Call_os_timer_arm uint32 bool

text \<open>
  The state: the registers, \<^verbatim>\<open>static os_timer_t s_Timer\<close>,
  \<^verbatim>\<open>int s_Tick\<close> (a 32-bit \<^verbatim>\<open>int\<close> on this target, held as a word whose
  addition wraps around), and the SDK calls made so far, oldest first.
\<close>

record state =
  regs :: hw_regs
  s_Timer :: os_timer_t
  s_Tick :: "32 word"
  sdk_calls :: "sdk_call list"

text \<open>
  The level of the designated pin, as the callback itself reads it:
  \<^verbatim>\<open>GPIO_REG_READ(GPIO_OUT_ADDRESS) & BIT1\<close>.
\<close>

definition GPIO_REG_READ_OUT :: "state \<Rightarrow> uint32" where
  "GPIO_REG_READ_OUT s = gpio_out (regs s)"

definition pin_level :: "state \<Rightarrow> pin_state" where
  "pin_level s = (if GPIO_REG_READ_OUT s AND BIT1 \<noteq> 0 then PIN_HIGH else PIN_LOW)"

subsection \<open>The SDK routines the program calls\<close>

text \<open>
  Modelled from the spec: \<^verbatim>\<open>gpio_output_set(set_mask, clear_mask, enable_mask,
  disable_mask)\<close> is an SDK routine, missing from the sources. The spec says that the call
  with \<^verbatim>\<open>BIT1\<close> as clear mask writes the pin low, that the call with \<^verbatim>\<open>BIT1\<close> as
  set mask writes it high, and that the call in \<^verbatim>\<open>user_init\<close> makes the pin an
  output: the bits of the set mask are set and those of the clear mask cleared in the
  output register, and likewise the enable and disable masks in the output-enable
  register. No bit is in two masks of one call of this program, so the order of the four
  writes does not matter here.
\<close>

definition gpio_output_set :: "uint32 \<Rightarrow> uint32 \<Rightarrow> uint32 \<Rightarrow> uint32 \<Rightarrow> state \<Rightarrow> state" where
  "gpio_output_set set_mask clear_mask enable_mask disable_mask s =
     s\<lparr>regs := (regs s)\<lparr>
          gpio_out := (gpio_out (regs s) OR set_mask) AND NOT clear_mask,
          gpio_enable := (gpio_enable (regs s) OR enable_mask) AND NOT disable_mask\<rparr>,
       sdk_calls := sdk_calls s @ [Call_gpio_output_set set_mask clear_mask enable_mask disable_mask]\<rparr>"

text \<open>
  \<^verbatim>\<open>gpio_init()\<close> is a routine of the SDK whose body is not part of the sources and
  which the spec does not describe. Its effect on the hardware registers is a parameter
  \<open>rom\<close> of the model; it cannot reach the variables of the program.
\<close>

definition gpio_init :: "(hw_regs \<Rightarrow> hw_regs) \<Rightarrow> state \<Rightarrow> state" where
  "gpio_init rom s = s\<lparr>regs := rom (regs s), sdk_calls := sdk_calls s @ [Call_gpio_init]\<rparr>"

text \<open>
  Modelled from the spec: \<^verbatim>\<open>PIN_FUNC_SELECT(pad, func)\<close> is a macro of the platform
  headers, missing from the sources; the spec says it routes the pad's function
  multiplexer to the given function.
\<close>

definition PIN_FUNC_SELECT :: "io_mux_pad \<Rightarrow> pad_func \<Rightarrow> state \<Rightarrow> state" where
  "PIN_FUNC_SELECT pad func s =
     s\<lparr>regs := (regs s)\<lparr>io_mux := (io_mux (regs s))(pad := func)\<rparr>,
       sdk_calls := sdk_calls s @ [Call_PIN_FUNC_SELECT pad func]\<rparr>"

text \<open>
  Modelled from the spec: \<^verbatim>\<open>os_timer_setfn(&s_Timer, f, arg)\<close> registers the callback
  and its argument with the timer; \<^verbatim>\<open>os_timer_arm(&s_Timer, ms, repeat)\<close> arms it
  with a period and a repeat flag. Both are SDK routines, missing from the sources.
\<close>

definition os_timer_setfn :: "code_addr \<Rightarrow> uint32 \<Rightarrow> state \<Rightarrow> state" where
  "os_timer_setfn pfunction parg s =
     s\<lparr>s_Timer := (s_Timer s)\<lparr>timer_func := Some pfunction, timer_arg := parg\<rparr>,
       sdk_calls := sdk_calls s @ [Call_os_timer_setfn pfunction parg]\<rparr>"

definition os_timer_arm :: "uint32 \<Rightarrow> bool \<Rightarrow> state \<Rightarrow> state" where
  "os_timer_arm milliseconds repeat_flag s =
     s\<lparr>s_Timer := (s_Timer s)\<lparr>timer_period := milliseconds, timer_repeat := repeat_flag,
                               timer_armed := True\<rparr>,
       sdk_calls := sdk_calls s @ [Call_os_timer_arm milliseconds repeat_flag]\<rparr>"

subsection \<open>The program\<close>

text \<open>
  \<^verbatim>\<open>void TimerFunction(void *arg)\<close>: increments \<^verbatim>\<open>s_Tick\<close>, then reads the
  output register and writes the pin low when bit 1 is set, high otherwise. A
  \<^verbatim>\<open>void\<close> function: the model returns the new state only.
\<close>

definition TimerFunction :: "uint32 \<Rightarrow> state \<Rightarrow> state" where
  "TimerFunction arg s =
     (let s1 = s\<lparr>s_Tick := s_Tick s + 1\<rparr> in
      if GPIO_REG_READ_OUT s1 AND BIT1 \<noteq> 0
      then gpio_output_set 0 BIT1 BIT1 0 s1
      else gpio_output_set BIT1 0 BIT1 0 s1)"

text \<open>
  \<^verbatim>\<open>int user_init()\<close>. The period is the build-time value substituted for
  \<^verbatim>\<open>$$com.sysprogs.esp8266.ledblink.DELAYMSEC$$\<close>, a parameter of the model, as is
  the effect \<open>rom\<close> of \<^verbatim>\<open>gpio_init\<close>. The repeat flag \<^verbatim>\<open>1\<close> is passed as a
  \<^verbatim>\<open>bool\<close>. The function returns its status and the new state.
\<close>

definition user_init :: "(hw_regs \<Rightarrow> hw_regs) \<Rightarrow> uint32 \<Rightarrow> state \<Rightarrow> 32 word \<times> state" where
  "user_init rom DELAYMSEC s =
     (let s1 = gpio_init rom s;
          s2 = PIN_FUNC_SELECT PERIPHS_IO_MUX_U0TXD_U FUNC_GPIO1 s1;
          s3 = gpio_output_set 0 BIT1 BIT1 0 s2;
          s4 = os_timer_setfn Addr_TimerFunction NULL s3;
          s5 = os_timer_arm DELAYMSEC True s4
      in (0, s5))"

text \<open>
  The timer subsystem invokes the callback once per period, one invocation after the
  other; \<open>invoke args\<close> runs one invocation for each argument pointer of the list.
\<close>

primrec invoke :: "uint32 list \<Rightarrow> state \<Rightarrow> state" where
  "invoke [] s = s"
| "invoke (arg # args) s = invoke args (TimerFunction arg s)"

subsection \<open>Concrete states\<close>

text \<open>
  A state at program start: the static initialisers have run (\<^verbatim>\<open>s_Tick = 0\<close>, the
  timer handle zeroed), no SDK call has been made, the registers are cleared and the pad
  still carries its UART function. \<open>rom_idle\<close> is a \<^verbatim>\<open>gpio_init\<close> that leaves the
  registers as they are.
\<close>

definition boot_state :: state where
  "boot_state =
     \<lparr>regs = \<lparr>gpio_out = 0, gpio_enable = 0, io_mux = (\<lambda>_. FUNC_U0TXD)\<rparr>,
      s_Timer = \<lparr>timer_func = None, timer_arg = 0, timer_period = 0,
                 timer_repeat = False, timer_armed = False\<rparr>,
      s_Tick = 0,
      sdk_calls = []\<rparr>"

definition rom_idle :: "hw_regs \<Rightarrow> hw_regs" where
  "rom_idle h = h"

text \<open>
  \<open>armed_state\<close> is the state \<^verbatim>\<open>user_init\<close> produces at program start with a period
  of 500 ms; \<open>ticked_state\<close> is that state after the callback has run once, with the
  argument the timer was given. \<open>busy_state\<close> is a start state whose output register
  already drives pins 0, 1, 2, 4 and 5 high.
\<close>

definition armed_state :: state where
  "armed_state = snd (user_init rom_idle 500 boot_state)"

definition ticked_state :: state where
  "ticked_state = TimerFunction NULL armed_state"

definition busy_state :: state where
  "busy_state = boot_state\<lparr>regs := (regs boot_state)\<lparr>gpio_out := 0x37\<rparr>\<rparr>"

text \<open>
  A \<^verbatim>\<open>gpio_output_set\<close> call whose set, clear and enable masks lie within
  \<^verbatim>\<open>BIT1\<close> and whose disable mask is zero; every other SDK call passes.
\<close>

fun bit1_masks_only :: "sdk_call \<Rightarrow> bool" where
  "bit1_masks_only (Call_gpio_output_set sm cm em dm) =
     (sm AND NOT BIT1 = 0 \<and> cm AND NOT BIT1 = 0 \<and> em AND NOT BIT1 = 0 \<and> dm = 0)"
| "bit1_masks_only Call_gpio_init = True"
| "bit1_masks_only (Call_PIN_FUNC_SELECT pad func) = True"
| "bit1_masks_only (Call_os_timer_setfn f a) = True"
| "bit1_masks_only (Call_os_timer_arm ms r) = True"

section \<open>Properties\<close>

subsection \<open>Bit 1 of a register\<close>

lemma bit_BIT1: "bit BIT1 n \<longleftrightarrow> n = 1"
proof -
  have "BIT1 = (2 :: uint32) ^ 1" by (simp add: BIT1_def)
  then have "bit BIT1 n \<longleftrightarrow> bit ((2 :: uint32) ^ 1) n" by simp
  also have "\<dots> \<longleftrightarrow> n = 1" by (simp only: bit_exp_iff) auto
  finally show ?thesis .
qed

lemma test_BIT1: "(w AND BIT1 \<noteq> 0) \<longleftrightarrow> bit w 1"
proof
  show "bit w 1" if "w AND BIT1 \<noteq> 0"
  proof (rule ccontr)
    assume "\<not> bit w 1"
    then have "w AND BIT1 = 0"
      by (intro bit_eqI) (auto simp: bit_and_iff bit_BIT1)
    with that show False by simp
  qed
next
  assume "bit w 1"
  then have "bit (w AND BIT1) 1" by (simp add: bit_and_iff bit_BIT1)
  then show "w AND BIT1 \<noteq> 0" by auto
qed

lemma clear_is_toggle: "bit w 1 \<Longrightarrow> w AND NOT BIT1 = w XOR BIT1"
  by (rule bit_eqI) (auto simp: bit_and_iff bit_not_iff bit_xor_iff bit_BIT1)

lemma set_is_toggle: "\<not> bit w 1 \<Longrightarrow> w OR BIT1 = w XOR BIT1"
  by (rule bit_eqI) (auto simp: bit_or_iff bit_xor_iff bit_BIT1)

lemma toggle_flips: "bit (w XOR BIT1) (Suc 0) \<longleftrightarrow> \<not> bit w (Suc 0)"
  by (simp add: bit_xor_iff bit_BIT1)

lemma toggle_keeps_rest: "(w XOR BIT1) AND NOT BIT1 = w AND NOT BIT1"
  by (rule bit_eqI) (auto simp: bit_and_iff bit_not_iff bit_xor_iff bit_BIT1)

lemma enable_keeps_rest: "(w OR BIT1) AND NOT BIT1 = w AND NOT BIT1"
  by (rule bit_eqI) (auto simp: bit_and_iff bit_not_iff bit_or_iff bit_BIT1)

lemma enable_sets: "(w OR BIT1) AND BIT1 = BIT1"
  by (rule bit_eqI) (auto simp: bit_and_iff bit_or_iff bit_BIT1)

lemma clear_keeps_rest: "(w AND NOT BIT1) AND NOT BIT1 = w AND NOT BIT1"
  by (rule bit_eqI) (auto simp: bit_and_iff bit_not_iff bit_BIT1)

lemma clear_clears: "\<not> bit (w AND NOT BIT1) (Suc 0)"
  by (simp add: bit_and_iff bit_not_iff bit_BIT1)

lemma word32_add_of_nat:
  "uint ((a :: 32 word) + of_nat n) = (uint a + int n) mod 2 ^ 32"
proof -
  have "uint (of_nat n :: 32 word) = int n mod 2 ^ 32"
    by (simp add: unsigned_of_nat take_bit_eq_mod zmod_int)
  then show ?thesis
    by (simp add: uint_word_ariths mod_add_right_eq)
qed

subsection \<open>What one call does to each part of the state\<close>

lemma gpio_output_set_fields:
  "gpio_out (regs (gpio_output_set sm cm em dm s)) = (gpio_out (regs s) OR sm) AND NOT cm"
  "gpio_enable (regs (gpio_output_set sm cm em dm s)) = (gpio_enable (regs s) OR em) AND NOT dm"
  "io_mux (regs (gpio_output_set sm cm em dm s)) = io_mux (regs s)"
  "s_Timer (gpio_output_set sm cm em dm s) = s_Timer s"
  "s_Tick (gpio_output_set sm cm em dm s) = s_Tick s"
  "sdk_calls (gpio_output_set sm cm em dm s) = sdk_calls s @ [Call_gpio_output_set sm cm em dm]"
  by (simp_all add: gpio_output_set_def)

lemma TimerFunction_high:
  "bit (gpio_out (regs s)) 1 \<Longrightarrow>
     TimerFunction arg s = gpio_output_set 0 BIT1 BIT1 0 (s\<lparr>s_Tick := s_Tick s + 1\<rparr>)"
  by (simp add: TimerFunction_def Let_def GPIO_REG_READ_OUT_def test_BIT1)

lemma TimerFunction_low:
  "\<not> bit (gpio_out (regs s)) 1 \<Longrightarrow>
     TimerFunction arg s = gpio_output_set BIT1 0 BIT1 0 (s\<lparr>s_Tick := s_Tick s + 1\<rparr>)"
  by (simp add: TimerFunction_def Let_def GPIO_REG_READ_OUT_def test_BIT1)

lemma TimerFunction_gpio_out:
  "gpio_out (regs (TimerFunction arg s)) = gpio_out (regs s) XOR BIT1"
proof (cases "bit (gpio_out (regs s)) 1")
  case True
  then show ?thesis
    by (simp add: TimerFunction_high gpio_output_set_fields clear_is_toggle)
next
  case False
  then show ?thesis
    by (simp add: TimerFunction_low gpio_output_set_fields set_is_toggle)
qed

lemma TimerFunction_gpio_enable:
  "gpio_enable (regs (TimerFunction arg s)) = gpio_enable (regs s) OR BIT1"
  by (cases "bit (gpio_out (regs s)) 1")
     (simp_all add: TimerFunction_high TimerFunction_low gpio_output_set_fields)

lemma TimerFunction_io_mux:
  "io_mux (regs (TimerFunction arg s)) = io_mux (regs s)"
  by (cases "bit (gpio_out (regs s)) 1")
     (simp_all add: TimerFunction_high TimerFunction_low gpio_output_set_fields)

lemma TimerFunction_s_Timer:
  "s_Timer (TimerFunction arg s) = s_Timer s"
  by (cases "bit (gpio_out (regs s)) 1")
     (simp_all add: TimerFunction_high TimerFunction_low gpio_output_set_fields)

lemma TimerFunction_s_Tick:
  "s_Tick (TimerFunction arg s) = s_Tick s + 1"
  by (cases "bit (gpio_out (regs s)) 1")
     (simp_all add: TimerFunction_high TimerFunction_low gpio_output_set_fields)

lemma TimerFunction_sdk_calls:
  "sdk_calls (TimerFunction arg s) =
     sdk_calls s @ [if pin_level s = PIN_HIGH then Call_gpio_output_set 0 BIT1 BIT1 0
                    else Call_gpio_output_set BIT1 0 BIT1 0]"
  by (cases "bit (gpio_out (regs s)) 1")
     (simp_all add: TimerFunction_high TimerFunction_low gpio_output_set_fields
        pin_level_def GPIO_REG_READ_OUT_def test_BIT1)

lemma pin_level_bit:
  "pin_level s = (if bit (gpio_out (regs s)) 1 then PIN_HIGH else PIN_LOW)"
  by (simp add: pin_level_def GPIO_REG_READ_OUT_def test_BIT1)

lemma pin_level_s_Tick: "pin_level (s\<lparr>s_Tick := t\<rparr>) = pin_level s"
  by (simp add: pin_level_def GPIO_REG_READ_OUT_def)

lemma TimerFunction_pin_level:
  "pin_level (TimerFunction arg s) = pin_not (pin_level s)"
  by (simp add: pin_level_bit TimerFunction_gpio_out toggle_flips)

lemma user_init_state:
  "snd (user_init rom d s) =
     os_timer_arm d True (os_timer_setfn Addr_TimerFunction NULL
       (gpio_output_set 0 BIT1 BIT1 0
         (PIN_FUNC_SELECT PERIPHS_IO_MUX_U0TXD_U FUNC_GPIO1 (gpio_init rom s))))"
  by (simp add: user_init_def Let_def)

lemma user_init_gpio_out:
  "gpio_out (regs (snd (user_init rom d s))) = gpio_out (rom (regs s)) AND NOT BIT1"
  by (simp add: user_init_state os_timer_arm_def os_timer_setfn_def gpio_output_set_def
      PIN_FUNC_SELECT_def gpio_init_def)

lemma user_init_gpio_enable:
  "gpio_enable (regs (snd (user_init rom d s))) = gpio_enable (rom (regs s)) OR BIT1"
  by (simp add: user_init_state os_timer_arm_def os_timer_setfn_def gpio_output_set_def
      PIN_FUNC_SELECT_def gpio_init_def)

lemma user_init_io_mux:
  "io_mux (regs (snd (user_init rom d s))) =
     (io_mux (rom (regs s)))(PERIPHS_IO_MUX_U0TXD_U := FUNC_GPIO1)"
  by (simp add: user_init_state os_timer_arm_def os_timer_setfn_def gpio_output_set_def
      PIN_FUNC_SELECT_def gpio_init_def)

lemma user_init_s_Timer:
  "s_Timer (snd (user_init rom d s)) =
     (s_Timer s)\<lparr>timer_func := Some Addr_TimerFunction, timer_arg := NULL,
                 timer_period := d, timer_repeat := True, timer_armed := True\<rparr>"
  by (simp add: user_init_state os_timer_arm_def os_timer_setfn_def gpio_output_set_def
      PIN_FUNC_SELECT_def gpio_init_def)

lemma user_init_s_Tick:
  "s_Tick (snd (user_init rom d s)) = s_Tick s"
  by (simp add: user_init_state os_timer_arm_def os_timer_setfn_def gpio_output_set_def
      PIN_FUNC_SELECT_def gpio_init_def)

lemma user_init_sdk_calls:
  "sdk_calls (snd (user_init rom d s)) =
     sdk_calls s @
       [Call_gpio_init,
        Call_PIN_FUNC_SELECT PERIPHS_IO_MUX_U0TXD_U FUNC_GPIO1,
        Call_gpio_output_set 0 BIT1 BIT1 0,
        Call_os_timer_setfn Addr_TimerFunction NULL,
        Call_os_timer_arm d True]"
  by (simp add: user_init_state os_timer_arm_def os_timer_setfn_def gpio_output_set_def
      PIN_FUNC_SELECT_def gpio_init_def)

lemma user_init_pin_level:
  "pin_level (snd (user_init rom d s)) = PIN_LOW"
  by (simp add: pin_level_bit user_init_gpio_out clear_clears)

lemma invoke_append: "invoke (xs @ ys) s = invoke ys (invoke xs s)"
  by (induction xs arbitrary: s) simp_all

lemma invoke_pin_level:
  "pin_level (invoke args s) =
     (if even (length args) then pin_level s else pin_not (pin_level s))"
proof (induction args arbitrary: s)
  case Nil
  then show ?case by simp
next
  case (Cons a args)
  have "pin_not (pin_not (pin_level s)) = pin_level s"
    by (cases "pin_level s") simp_all
  with Cons show ?case
    by (simp add: TimerFunction_pin_level)
qed

lemma invoke_s_Tick:
  "s_Tick (invoke args s) = s_Tick s + of_nat (length args)"
  by (induction args arbitrary: s) (simp_all add: TimerFunction_s_Tick)

lemma BIT1_within: "BIT1 AND NOT BIT1 = 0"
  by simp

section \<open>The claims\<close>

text \<open>
  C1. After user_init, from any state, and then any number N of consecutive invocations of
  TimerFunction (whatever their argument pointers), the designated pin is at PIN_LOW when
  N is even and at PIN_HIGH when N is odd.
\<close>

theorem alternation_after_user_init:
  "pin_level (invoke args (snd (user_init rom d s))) =
     (if even (length args) then PIN_LOW else PIN_HIGH)"
  by (simp add: invoke_pin_level user_init_pin_level)

text \<open>
  C2. user_init is invoked once, at program start, before any callback has run: the only
  write to s_Tick is the one in TimerFunction, so the counter still holds the value 0 of
  its static initialiser. In every such state, whatever the registers, the timer handle
  and gpio_init, the post-state has the designated pin at PIN_LOW and s_Tick equal to 0.
\<close>

theorem user_init_post_state:
  "s_Tick s = 0 \<Longrightarrow>
     pin_level (snd (user_init rom d s)) = PIN_LOW \<and> s_Tick (snd (user_init rom d s)) = 0"
  by (simp add: user_init_pin_level user_init_s_Tick)

theorem user_init_post_state_witness:
  "s_Tick busy_state = 0 \<and>
   pin_level busy_state = PIN_HIGH \<and>
   pin_level (snd (user_init rom_idle 500 busy_state)) = PIN_LOW \<and>
   s_Tick (snd (user_init rom_idle 500 busy_state)) = 0"
proof -
  have start: "s_Tick busy_state = 0"
    by (simp add: busy_state_def boot_state_def)
  have high: "pin_level busy_state = PIN_HIGH"
    by (simp add: pin_level_def GPIO_REG_READ_OUT_def busy_state_def boot_state_def BIT1_def)
  from user_init_post_state [OF start, of rom_idle 500] start high show ?thesis
    by simp
qed

text \<open>
  C3. One invocation of TimerFunction adds exactly one to s_Tick, and N invocations from
  any state add N, in 32-bit arithmetic that wraps around.
\<close>

theorem tick_counts_invocations:
  "s_Tick (TimerFunction arg s) = s_Tick s + 1 \<and>
   s_Tick (invoke args s) = s_Tick s + of_nat (length args) \<and>
   uint (s_Tick (invoke args s)) = (uint (s_Tick s) + int (length args)) mod 2 ^ 32"
  by (simp add: TimerFunction_s_Tick invoke_s_Tick word32_add_of_nat)

text \<open>
  C4. One invocation of TimerFunction sets the pin to the negation of the level it reads
  from the output register, whatever the tick counter holds; two states that agree on that
  level end at the same level, whatever else they hold and whatever the arguments.
\<close>

theorem callback_negates_pin:
  "pin_level (TimerFunction arg s) = pin_not (pin_level s) \<and>
   pin_level (TimerFunction arg (s\<lparr>s_Tick := t\<rparr>)) = pin_not (pin_level s) \<and>
   (pin_level s' = pin_level s \<longrightarrow>
      pin_level (TimerFunction arg' s') = pin_level (TimerFunction arg s))"
proof (intro conjI impI)
  show "pin_level (TimerFunction arg s) = pin_not (pin_level s)"
    by (rule TimerFunction_pin_level)
  show "pin_level (TimerFunction arg (s\<lparr>s_Tick := t\<rparr>)) = pin_not (pin_level s)"
    by (simp only: TimerFunction_pin_level pin_level_s_Tick)
  show "pin_level (TimerFunction arg' s') = pin_level (TimerFunction arg s)"
    if "pin_level s' = pin_level s"
    using that by (simp only: TimerFunction_pin_level)
qed

theorem callback_negates_pin_witness:
  "pin_level ticked_state = pin_level (busy_state\<lparr>s_Tick := 41\<rparr>) \<and>
   pin_level (TimerFunction 7 ticked_state) = PIN_LOW \<and>
   pin_level (TimerFunction NULL (busy_state\<lparr>s_Tick := 41\<rparr>)) = PIN_LOW"
proof -
  have hi: "pin_level (busy_state\<lparr>s_Tick := 41\<rparr>) = PIN_HIGH"
    by (simp add: pin_level_def GPIO_REG_READ_OUT_def busy_state_def boot_state_def BIT1_def)
  have hi': "pin_level ticked_state = PIN_HIGH"
    by (simp add: ticked_state_def armed_state_def TimerFunction_pin_level user_init_pin_level)
  from callback_negates_pin [of NULL "busy_state\<lparr>s_Tick := 41\<rparr>" 0 ticked_state 7] hi hi'
  show ?thesis by simp
qed

text \<open>
  C5. user_init makes, after gpio_init, exactly these SDK calls in this order: it selects
  the GPIO function for the pad of the designated pin, writes the pin low while enabling
  its output, registers TimerFunction (with a null argument) with the timer, and arms the
  timer with the configured period and the repeat flag set. Afterwards the pad is routed
  to GPIO, the pin's output is enabled and low, and the timer holds the callback, the
  period and the repeat flag, and is armed.
\<close>

theorem user_init_sequence:
  "sdk_calls (snd (user_init rom d s)) =
     sdk_calls s @
       [Call_gpio_init,
        Call_PIN_FUNC_SELECT PERIPHS_IO_MUX_U0TXD_U FUNC_GPIO1,
        Call_gpio_output_set 0 BIT1 BIT1 0,
        Call_os_timer_setfn Addr_TimerFunction NULL,
        Call_os_timer_arm d True] \<and>
   io_mux (regs (snd (user_init rom d s))) PERIPHS_IO_MUX_U0TXD_U = FUNC_GPIO1 \<and>
   gpio_enable (regs (snd (user_init rom d s))) AND BIT1 = BIT1 \<and>
   pin_level (snd (user_init rom d s)) = PIN_LOW \<and>
   timer_func (s_Timer (snd (user_init rom d s))) = Some Addr_TimerFunction \<and>
   timer_arg (s_Timer (snd (user_init rom d s))) = NULL \<and>
   timer_period (s_Timer (snd (user_init rom d s))) = d \<and>
   timer_repeat (s_Timer (snd (user_init rom d s))) \<and>
   timer_armed (s_Timer (snd (user_init rom d s)))"
  by (simp add: user_init_sdk_calls user_init_io_mux user_init_gpio_enable enable_sets
      user_init_pin_level user_init_s_Timer)

text \<open>C6. user_init returns 0 in every state, for every period and every gpio_init.\<close>

theorem user_init_returns_zero:
  "fst (user_init rom d s) = 0"
  by (simp add: user_init_def Let_def)

text \<open>
  C7, as stated, fails: the callback also changes s_Tick. In the state user_init leaves
  at program start, one invocation changes the counter.
\<close>

theorem callback_frame_counterexample:
  "s_Tick (TimerFunction NULL armed_state) \<noteq> s_Tick armed_state"
  by (simp add: TimerFunction_s_Tick)

text \<open>
  C7, amended. TimerFunction returns no value (the model returns the state only), and its
  effects on the state are these and no others: bit 1 of the output register is toggled,
  s_Tick is incremented by one, bit 1 of the output-enable register is set (no change
  once the pin is an output), and the one gpio_output_set call is made. The pin
  multiplexer and the timer handle are as before.
\<close>

theorem callback_effects:
  "gpio_out (regs (TimerFunction arg s)) = gpio_out (regs s) XOR BIT1 \<and>
   s_Tick (TimerFunction arg s) = s_Tick s + 1 \<and>
   gpio_enable (regs (TimerFunction arg s)) = gpio_enable (regs s) OR BIT1 \<and>
   io_mux (regs (TimerFunction arg s)) = io_mux (regs s) \<and>
   s_Timer (TimerFunction arg s) = s_Timer s \<and>
   sdk_calls (TimerFunction arg s) =
     sdk_calls s @ [if pin_level s = PIN_HIGH then Call_gpio_output_set 0 BIT1 BIT1 0
                    else Call_gpio_output_set BIT1 0 BIT1 0]"
  by (simp only: TimerFunction_gpio_out TimerFunction_s_Tick TimerFunction_gpio_enable
      TimerFunction_io_mux TimerFunction_s_Timer TimerFunction_sdk_calls simp_thms)

text \<open>
  C8. The state TimerFunction produces does not depend on its argument pointer: any two
  pointers, the null pointer among them, give the same state from the same start.
\<close>

theorem callback_ignores_argument:
  "TimerFunction arg s = TimerFunction arg' s \<and> TimerFunction NULL s = TimerFunction arg s"
  by (simp add: TimerFunction_def)

text \<open>
  C9. TimerFunction leaves every bit but bit 1 of the output register and of the
  output-enable register as it was. The writes user_init makes itself do the same to the
  registers gpio_init leaves; so when gpio_init keeps the output register, user_init
  leaves every bit but bit 1 of it as it was. Every gpio_output_set call either function
  makes has set, clear and enable masks within BIT1 and a zero disable mask.
\<close>

theorem writes_only_bit1:
  "gpio_out (regs (TimerFunction arg s)) AND NOT BIT1 = gpio_out (regs s) AND NOT BIT1 \<and>
   gpio_enable (regs (TimerFunction arg s)) AND NOT BIT1 = gpio_enable (regs s) AND NOT BIT1 \<and>
   list_all bit1_masks_only (drop (length (sdk_calls s)) (sdk_calls (TimerFunction arg s))) \<and>
   gpio_out (regs (snd (user_init rom d s))) AND NOT BIT1 = gpio_out (rom (regs s)) AND NOT BIT1 \<and>
   gpio_enable (regs (snd (user_init rom d s))) AND NOT BIT1 =
     gpio_enable (rom (regs s)) AND NOT BIT1 \<and>
   list_all bit1_masks_only (drop (length (sdk_calls s)) (sdk_calls (snd (user_init rom d s)))) \<and>
   (gpio_out (rom (regs s)) = gpio_out (regs s) \<longrightarrow>
      gpio_out (regs (snd (user_init rom d s))) AND NOT BIT1 = gpio_out (regs s) AND NOT BIT1)"
  by (simp add: TimerFunction_gpio_out TimerFunction_gpio_enable TimerFunction_sdk_calls
      user_init_gpio_out user_init_gpio_enable user_init_sdk_calls
      toggle_keeps_rest enable_keeps_rest clear_keeps_rest BIT1_within)

theorem writes_only_bit1_witness:
  "gpio_out (rom_idle (regs busy_state)) = gpio_out (regs busy_state) \<and>
   gpio_out (regs busy_state) = 0x37 \<and>
   gpio_out (regs (snd (user_init rom_idle 500 busy_state))) = 0x35 \<and>
   gpio_out (regs (snd (user_init rom_idle 500 busy_state))) AND NOT BIT1 =
     gpio_out (regs busy_state) AND NOT BIT1"
proof -
  have keep: "gpio_out (rom_idle (regs busy_state)) = gpio_out (regs busy_state)"
    by (simp add: rom_idle_def)
  have before: "gpio_out (regs busy_state) = 0x37"
    by (simp add: busy_state_def)
  have after: "gpio_out (regs (snd (user_init rom_idle 500 busy_state))) = 0x35"
    by (simp add: user_init_gpio_out rom_idle_def busy_state_def BIT1_def)
  from writes_only_bit1 [of NULL busy_state rom_idle 500] keep before after
  show ?thesis by simp
qed

text \<open>
  C10. user_init never writes s_Tick: its value after the call is its value before,
  in every state.
\<close>

theorem user_init_keeps_tick:
  "s_Tick (snd (user_init rom d s)) = s_Tick s"
  by (simp add: user_init_s_Tick)

end
